theory Spec2Isabelle
  imports Complex_Main
begin

section \<open>Grid trading P\&L schema: the data model of money\_management.ts\<close>

text \<open>
  The module \<^verbatim>\<open>src/services/order-engine/models/money_management.ts\<close> declares
  interfaces, three function types, one capability interface and one constants table.
  Each interface is a record with the source's field names, each union of string
  literals is a datatype, and the TypeScript type \<^verbatim>\<open>number\<close> is \<^typ>\<open>real\<close>: the
  decimal literals of the source denote the rationals they spell, and rounding, NaN and
  the infinities of IEEE doubles are outside the model. A \<^verbatim>\<open>Date\<close> is its
  millisecond time stamp.

  Two field names clash with constants of HOL and carry a prime: \<^verbatim>\<open>id\<close> of a
  trade and \<^verbatim>\<open>size\<close> of a position.
\<close>

type_synonym Date = int

subsection \<open>Base types\<close>

record Price =
  "value" :: real
  timestamp :: Date

record Volume =
  amount :: real
  currency :: string

datatype TradeType = BUY | SELL

record Trade =
  id' :: string
  type :: TradeType
  price :: Price
  volume :: Volume
  fee :: real
  timestamp :: Date

datatype PositionSide = LONG | SHORT

record Position =
  symbol :: string
  side :: PositionSide
  size' :: real
  entryPrice :: real
  currentPrice :: real
  unrealizedPnl :: real
  timestamp :: Date

subsection \<open>Grid configuration\<close>

text \<open>The inline object type of \<^verbatim>\<open>priceRange\<close> is a record of its own.\<close>

record PriceRange =
  upper :: real
  lower :: real

record GridConfig =
  symbol :: string
  priceRange :: PriceRange
  gridLevels :: real
  gridSpacing :: real
  baseOrderSize :: real
  maxPositions :: real

subsection \<open>Cost components\<close>

record TradingCosts =
  buyFees :: real
  sellFees :: real
  spreadCost :: real
  slippageCost :: real
  fundingCost :: real

record InfrastructureCosts =
  vpsCost :: real
  apiCost :: real
  softwareLicenses :: real
  networkCosts :: real

record OpportunityCosts =
  riskFreeRate :: real
  alternativeInvestmentReturn :: real
  timeValue :: real

record RiskCosts =
  drawdownImpact :: real
  volatilityPenalty :: real
  correlationRisk :: real
  liquidityRisk :: real

record HiddenCosts =
  rebalancingCost :: real
  gapRisk :: real
  liquidityCost :: real
  taxImplications :: real

subsection \<open>Profit components\<close>

record GridProfit =
  realizedProfit :: real
  unrealizedPnl :: real
  totalTrades :: real
  successfulCycles :: real
  timestamp :: Date

record TotalCosts =
  trading :: TradingCosts
  infrastructure :: InfrastructureCosts
  opportunity :: OpportunityCosts
  risk :: RiskCosts
  hidden :: HiddenCosts
  totalAmount :: real

subsection \<open>Performance metrics\<close>

record ReturnMetrics =
  sharpeRatio :: real
  sortinoRatio :: real
  calmarRatio :: real
  annualReturn :: real
  volatility :: real

record RiskMetrics =
  maximumDrawdown :: real
  valueAtRisk :: real
  winRate :: real
  averageWinLossRatio :: real
  recoveryTime :: real

record EfficiencyMetrics =
  profitFactor :: real
  recoveryFactor :: real
  tradesPerDay :: real
  averageProfitPerTrade :: real
  gridEfficiency :: real

record GridMetrics =
  gridEfficiency :: real
  capitalUtilization :: real
  cycleCompletionRate :: real
  averageGridSpacing :: real
  maxCapitalAtRisk :: real

subsection \<open>Final P\&L calculation\<close>

record PnLCalculation =
  gridProfit :: GridProfit
  totalCosts :: TotalCosts
  netProfit :: real
  riskAdjustedReturn :: real
  finalPnl :: real
  calculationDate :: Date

text \<open>
  The inline object type \<^verbatim>\<open>{ start: Date; end: Date }\<close> of a report's period and of
  the calculators' \<^verbatim>\<open>timeframe\<close> parameter.
\<close>

record Period =
  start :: Date
  "end" :: Date

record PerformanceReport =
  pnl :: PnLCalculation
  returnMetrics :: ReturnMetrics
  riskMetrics :: RiskMetrics
  efficiencyMetrics :: EfficiencyMetrics
  gridMetrics :: GridMetrics
  period :: Period

subsection \<open>Constants for calculations\<close>

record CalculationConstants =
  DAYS_PER_YEAR :: real
  TRADING_DAYS_PER_YEAR :: real
  HOURS_PER_DAY :: real
  MINUTES_PER_HOUR :: real
  SECONDS_PER_MINUTE :: real
  DEFAULT_RISK_FREE_RATE :: real
  DEFAULT_MAKER_FEE :: real
  DEFAULT_TAKER_FEE :: real
  DEFAULT_VAR_CONFIDENCE :: real
  DEFAULT_MAX_DRAWDOWN_LIMIT :: real

definition CALCULATION_CONSTANTS :: CalculationConstants where
  "CALCULATION_CONSTANTS = \<lparr>
     DAYS_PER_YEAR = 365,
     TRADING_DAYS_PER_YEAR = 252,
     HOURS_PER_DAY = 24,
     MINUTES_PER_HOUR = 60,
     SECONDS_PER_MINUTE = 60,
     DEFAULT_RISK_FREE_RATE = 0.02,
     DEFAULT_MAKER_FEE = 0.001,
     DEFAULT_TAKER_FEE = 0.0015,
     DEFAULT_VAR_CONFIDENCE = 0.95,
     DEFAULT_MAX_DRAWDOWN_LIMIT = 0.2 \<rparr>"

section \<open>The constants table\<close>

text \<open>
  Claim C1. The exported table \<^verbatim>\<open>CALCULATION_CONSTANTS\<close> binds the seven values the
  specification lists: 365 days and 252 trading days per year, a default risk-free rate
  of 0.02, maker and taker fees of 0.001 and 0.0015, a VaR confidence of 0.95 and a
  maximum drawdown limit of 0.2.
\<close>

theorem calculation_constants_listed:
  "DAYS_PER_YEAR CALCULATION_CONSTANTS = 365
   \<and> TRADING_DAYS_PER_YEAR CALCULATION_CONSTANTS = 252
   \<and> DEFAULT_RISK_FREE_RATE CALCULATION_CONSTANTS = 2 / 100
   \<and> DEFAULT_MAKER_FEE CALCULATION_CONSTANTS = 1 / 1000
   \<and> DEFAULT_TAKER_FEE CALCULATION_CONSTANTS = 15 / 10000
   \<and> DEFAULT_VAR_CONFIDENCE CALCULATION_CONSTANTS = 95 / 100
   \<and> DEFAULT_MAX_DRAWDOWN_LIMIT CALCULATION_CONSTANTS = 2 / 10"
  by (simp add: CALCULATION_CONSTANTS_def)

text \<open>
  Claim C9. Besides the listed values, the table defines the time conversions
  \<^verbatim>\<open>HOURS_PER_DAY = 24\<close>, \<^verbatim>\<open>MINUTES_PER_HOUR = 60\<close> and
  \<^verbatim>\<open>SECONDS_PER_MINUTE = 60\<close>.
\<close>

theorem calculation_constants_time_conversions:
  "HOURS_PER_DAY CALCULATION_CONSTANTS = 24
   \<and> MINUTES_PER_HOUR CALCULATION_CONSTANTS = 60
   \<and> SECONDS_PER_MINUTE CALCULATION_CONSTANTS = 60"
  by (simp add: CALCULATION_CONSTANTS_def)

section \<open>Discriminants of trades and positions\<close>

text \<open>
  Claim C10. The buy/sell discriminant of a trade is its field \<^verbatim>\<open>type\<close>, and it is
  always \<^verbatim>\<open>BUY\<close> or \<^verbatim>\<open>SELL\<close>; the field \<^verbatim>\<open>side\<close> of a position is always
  \<^verbatim>\<open>LONG\<close> or \<^verbatim>\<open>SHORT\<close>. The two values of each discriminant differ and the types
  hold no third value.
\<close>

theorem trade_type_and_position_side_closed:
  "(type (t :: Trade) = BUY \<or> type t = SELL)
   \<and> (side (p :: Position) = LONG \<or> side p = SHORT)
   \<and> BUY \<noteq> SELL \<and> LONG \<noteq> SHORT
   \<and> (UNIV :: TradeType set) = {BUY, SELL}
   \<and> (UNIV :: PositionSide set) = {LONG, SHORT}"
proof -
  have tt: "\<And>x :: TradeType. x = BUY \<or> x = SELL"
    by (case_tac x) simp_all
  have ps: "\<And>x :: PositionSide. x = LONG \<or> x = SHORT"
    by (case_tac x) simp_all
  have "(UNIV :: TradeType set) = {BUY, SELL}"
    using tt by auto
  moreover have "(UNIV :: PositionSide set) = {LONG, SHORT}"
    using ps by auto
  ultimately show ?thesis
    using tt [of "type t"] ps [of "side p"] by simp
qed

section \<open>What the record types admit\<close>

subsection \<open>TotalCosts\<close>

text \<open>
  The quantity the data model's invariant for \<^verbatim>\<open>TotalCosts\<close> speaks of: the sum of
  every numeric component of the five cost sub-records. The source declares the fields
  only; these sums are written here to state the invariant, the module computes none of
  them.
\<close>

definition tradingSum :: "TradingCosts \<Rightarrow> real" where
  "tradingSum c = buyFees c + sellFees c + spreadCost c + slippageCost c + fundingCost c"

definition infrastructureSum :: "InfrastructureCosts \<Rightarrow> real" where
  "infrastructureSum c = vpsCost c + apiCost c + softwareLicenses c + networkCosts c"

definition opportunitySum :: "OpportunityCosts \<Rightarrow> real" where
  "opportunitySum c = riskFreeRate c + alternativeInvestmentReturn c + timeValue c"

definition riskSum :: "RiskCosts \<Rightarrow> real" where
  "riskSum c = drawdownImpact c + volatilityPenalty c + correlationRisk c + liquidityRisk c"

definition hiddenSum :: "HiddenCosts \<Rightarrow> real" where
  "hiddenSum c = rebalancingCost c + gapRisk c + liquidityCost c + taxImplications c"

definition componentsSum :: "TotalCosts \<Rightarrow> real" where
  "componentsSum c =
     tradingSum (trading c) + infrastructureSum (infrastructure c)
     + opportunitySum (opportunity c) + riskSum (risk c) + hiddenSum (hidden c)"

text \<open>
  An object literal that type-checks as \<^verbatim>\<open>TotalCosts\<close>: every component is 0 and
  \<^verbatim>\<open>totalAmount\<close> is 1.
\<close>

definition unbalancedCosts :: TotalCosts where
  "unbalancedCosts = \<lparr>
     trading = \<lparr> buyFees = 0, sellFees = 0, spreadCost = 0, slippageCost = 0,
                 fundingCost = 0 \<rparr>,
     infrastructure = \<lparr> vpsCost = 0, apiCost = 0, softwareLicenses = 0,
                        networkCosts = 0 \<rparr>,
     opportunity = \<lparr> riskFreeRate = 0, alternativeInvestmentReturn = 0, timeValue = 0 \<rparr>,
     risk = \<lparr> drawdownImpact = 0, volatilityPenalty = 0, correlationRisk = 0,
              liquidityRisk = 0 \<rparr>,
     hidden = \<lparr> rebalancingCost = 0, gapRisk = 0, liquidityCost = 0,
                taxImplications = 0 \<rparr>,
     totalAmount = 1 \<rparr>"

lemmas cost_sums =
  componentsSum_def tradingSum_def infrastructureSum_def opportunitySum_def riskSum_def
  hiddenSum_def

text \<open>
  Claim C2, as stated: for every value of type \<^verbatim>\<open>TotalCosts\<close>, \<^verbatim>\<open>totalAmount\<close>
  equals the sum of all numeric components of the five sub-records. The interface does
  not tie the field to the others: in \<^const>\<open>unbalancedCosts\<close> the components sum to 0
  and \<^verbatim>\<open>totalAmount\<close> is 1.
\<close>

theorem total_amount_not_tied_to_components:
  "componentsSum unbalancedCosts = 0 \<and> totalAmount unbalancedCosts = 1
   \<and> totalAmount unbalancedCosts \<noteq> componentsSum unbalancedCosts"
  by (simp add: cost_sums unbalancedCosts_def)

text \<open>
  Claim C2, amended: \<^verbatim>\<open>totalAmount\<close> is a field stored beside the five cost
  sub-records. Any number can be stored there without changing a sub-record, and the
  stored number equals the sum of the components exactly when that sum is what was
  stored.
\<close>

theorem total_amount_is_a_free_field:
  "trading (c\<lparr>totalAmount := x\<rparr>) = trading c
   \<and> infrastructure (c\<lparr>totalAmount := x\<rparr>) = infrastructure c
   \<and> opportunity (c\<lparr>totalAmount := x\<rparr>) = opportunity c
   \<and> risk (c\<lparr>totalAmount := x\<rparr>) = risk c
   \<and> hidden (c\<lparr>totalAmount := x\<rparr>) = hidden c
   \<and> totalAmount (c\<lparr>totalAmount := x\<rparr>) = x
   \<and> (totalAmount (c\<lparr>totalAmount := x\<rparr>) = componentsSum (c\<lparr>totalAmount := x\<rparr>))
       = (x = componentsSum c)"
  by (simp add: componentsSum_def)

subsection \<open>GridConfig\<close>

text \<open>
  An object literal that type-checks as \<^verbatim>\<open>GridConfig\<close>: the price range is
  inverted and there is no grid level.
\<close>

definition invertedConfig :: GridConfig where
  "invertedConfig = \<lparr>
     symbol = ''BTCUSDT'',
     priceRange = \<lparr> upper = 1, lower = 2 \<rparr>,
     gridLevels = 0,
     gridSpacing = 1,
     baseOrderSize = 1,
     maxPositions = 1 \<rparr>"

text \<open>
  Claim C6, as stated: every \<^verbatim>\<open>GridConfig\<close> value has
  \<^verbatim>\<open>priceRange.upper > priceRange.lower\<close> and \<^verbatim>\<open>gridLevels >= 1\<close>, and a value with
  \<^verbatim>\<open>upper <= lower\<close> cannot be produced. The module exports the interface and no
  constructor or validator: \<^const>\<open>invertedConfig\<close> is a value of the type with
  \<^verbatim>\<open>upper <= lower\<close> and \<^verbatim>\<open>gridLevels < 1\<close>.
\<close>

theorem grid_config_admits_inverted_range:
  "upper (priceRange invertedConfig) \<le> lower (priceRange invertedConfig)
   \<and> gridLevels invertedConfig < 1
   \<and> \<not> (upper (priceRange invertedConfig) > lower (priceRange invertedConfig)
          \<and> gridLevels invertedConfig \<ge> 1)"
  by (simp add: invertedConfig_def)

text \<open>
  Claim C6, amended: \<^verbatim>\<open>GridConfig\<close> is a record without constraints. Whatever
  numbers are written to \<^verbatim>\<open>priceRange.upper\<close>, \<^verbatim>\<open>priceRange.lower\<close> and
  \<^verbatim>\<open>gridLevels\<close> are the numbers read back, the other fields are untouched, and
  the value satisfies \<^verbatim>\<open>upper > lower\<close> and \<^verbatim>\<open>gridLevels >= 1\<close> exactly when the
  numbers written do.
\<close>

theorem grid_config_fields_unconstrained:
  "upper (priceRange (c\<lparr>priceRange := \<lparr>upper = u, lower = l\<rparr>, gridLevels := n\<rparr>)) = u
   \<and> lower (priceRange (c\<lparr>priceRange := \<lparr>upper = u, lower = l\<rparr>, gridLevels := n\<rparr>)) = l
   \<and> gridLevels (c\<lparr>priceRange := \<lparr>upper = u, lower = l\<rparr>, gridLevels := n\<rparr>) = n
   \<and> GridConfig.symbol (c\<lparr>priceRange := \<lparr>upper = u, lower = l\<rparr>, gridLevels := n\<rparr>)
       = GridConfig.symbol c
   \<and> gridSpacing (c\<lparr>priceRange := \<lparr>upper = u, lower = l\<rparr>, gridLevels := n\<rparr>)
       = gridSpacing c
   \<and> baseOrderSize (c\<lparr>priceRange := \<lparr>upper = u, lower = l\<rparr>, gridLevels := n\<rparr>)
       = baseOrderSize c
   \<and> maxPositions (c\<lparr>priceRange := \<lparr>upper = u, lower = l\<rparr>, gridLevels := n\<rparr>)
       = maxPositions c
   \<and> (upper (priceRange (c\<lparr>priceRange := \<lparr>upper = u, lower = l\<rparr>, gridLevels := n\<rparr>))
         > lower (priceRange (c\<lparr>priceRange := \<lparr>upper = u, lower = l\<rparr>, gridLevels := n\<rparr>))
       \<and> gridLevels (c\<lparr>priceRange := \<lparr>upper = u, lower = l\<rparr>, gridLevels := n\<rparr>) \<ge> 1)
      = (u > l \<and> n \<ge> 1)"
  by simp

section \<open>The calculator contracts\<close>

text \<open>
  The source gives the three calculators as function types and the strategy as an
  interface: signatures without bodies.
\<close>

text \<open>
  Modelled from the spec: the error kinds a calculator fails with. The source declares
  no error type; section 7 of the specification assigns \<^verbatim>\<open>InvalidWindow\<close>,
  \<^verbatim>\<open>EmptyInput\<close> and \<^verbatim>\<open>InsufficientData\<close> to the calculator contracts.
\<close>

datatype error = InvalidWindow | EmptyInput | InsufficientData

text \<open>
  The function types of lines 157 to 174, with the parameters in the source's order. A
  TypeScript function fails by throwing, which its type does not show: the two
  calculators the specification gives error conditions return the error or the result.
\<close>

type_synonym PnLCalculator =
  "Trade list \<Rightarrow> Position list \<Rightarrow> GridConfig \<Rightarrow> TotalCosts \<Rightarrow> Period
     \<Rightarrow> error + PnLCalculation"

type_synonym RiskCalculator = "real list \<Rightarrow> real \<Rightarrow> error + RiskMetrics"

type_synonym EfficiencyCalculator =
  "Trade list \<Rightarrow> PnLCalculation \<Rightarrow> Period \<Rightarrow> EfficiencyMetrics"

subsection \<open>P\&L calculator\<close>

text \<open>
  Modelled from the spec: what section 4.1 leaves to the implementer of a
  \<^verbatim>\<open>PnLCalculator\<close>, taken as parameters. Whether empty input is an error is an
  open question there; the risk-adjustment formula is a policy external to the schema;
  the trade and cycle counts and the two dates of the result are not described.
\<close>

record PnLPolicy =
  rejectEmptyInput :: bool
  riskAdjustedReturnOf :: "real \<Rightarrow> real"
  adjustedPnl :: "real \<Rightarrow> real \<Rightarrow> real"
  totalTradesOf :: "Trade list \<Rightarrow> real"
  successfulCyclesOf :: "Trade list \<Rightarrow> real"
  dateOf :: "Period \<Rightarrow> Date"

text \<open>
  Modelled from the spec: a trade is within the window \<^verbatim>\<open>[start,end]\<close> when its
  time stamp is (section 4.1; the source has no body of a \<^verbatim>\<open>PnLCalculator\<close>).
\<close>

definition inWindow :: "Period \<Rightarrow> Trade \<Rightarrow> bool" where
  "inWindow timeframe t \<longleftrightarrow>
     start timeframe \<le> Trade.timestamp t \<and> Trade.timestamp t \<le> end timeframe"

text \<open>
  Modelled from the spec: the matching of sales to purchases behind the words
  \<^verbatim>\<open>matched BUY cost\<close> (section 4.1; the source has no body of a
  \<^verbatim>\<open>PnLCalculator\<close>). The specification takes the trades as an ordered sequence and
  does not name the matching discipline; first in, first out by quantity is taken. A lot
  is a purchase with the quantity of it that is still open. A purchase opens a lot of
  its amount, behind the lots already open; a purchase of no positive amount opens none.
\<close>

type_synonym Lot = "Trade \<times> real"

definition openLot :: "Trade \<Rightarrow> Lot list \<Rightarrow> Lot list" where
  "openLot b lots = (if 0 < amount (volume b) then lots @ [(b, amount (volume b))] else lots)"

text \<open>
  Modelled from the spec: what a sale of quantity \<open>q\<close> is matched with, the open lots
  from the oldest on, each with the quantity taken from it, until \<open>q\<close> is used up or no
  lot is left (section 4.1, \<^verbatim>\<open>matched BUY cost\<close>).
\<close>

fun matchLots :: "real \<Rightarrow> Lot list \<Rightarrow> Lot list" where
  "matchLots q [] = []"
| "matchLots q ((b, r) # lots) =
     (if q \<le> 0 then []
      else if q < r then [(b, q)]
      else (b, r) # matchLots (q - r) lots)"

text \<open>
  Modelled from the spec: the lots still open after a sale of quantity \<open>q\<close> has been
  matched (section 4.1, \<^verbatim>\<open>matched BUY cost\<close>).
\<close>

fun remainingLots :: "real \<Rightarrow> Lot list \<Rightarrow> Lot list" where
  "remainingLots q [] = []"
| "remainingLots q ((b, r) # lots) =
     (if q \<le> 0 then (b, r) # lots
      else if q < r then (b, r - q) # lots
      else remainingLots (q - r) lots)"

text \<open>
  Modelled from the spec: the sales of the trade sequence, in order, each with the lots
  matched to it (section 4.1). The first argument holds the lots open so far.
\<close>

fun closedCycles :: "Lot list \<Rightarrow> Trade list \<Rightarrow> (Trade \<times> Lot list) list" where
  "closedCycles lots [] = []"
| "closedCycles lots (t # ts) =
     (case type t of
        BUY \<Rightarrow> closedCycles (openLot t lots) ts
      | SELL \<Rightarrow>
          (t, matchLots (amount (volume t)) lots)
            # closedCycles (remainingLots (amount (volume t)) lots) ts)"

text \<open>
  Modelled from the spec: the three parts of the signed proceeds of a sale (section 4.1:
  SELL proceeds, minus matched BUY cost, minus fees). The proceeds are price times amount
  of the sale; the matched cost is the price of each matched purchase times the quantity
  matched; the fees are the fee of the sale and, of each matched purchase, the share of
  its fee that the quantity matched is of its amount.
\<close>

definition sellProceeds :: "Trade \<Rightarrow> real" where
  "sellProceeds s = value (price s) * amount (volume s)"

definition matchedBuyCost :: "Lot list \<Rightarrow> real" where
  "matchedBuyCost matched = sum_list (map (\<lambda>(b, m). value (price b) * m) matched)"

definition matchedBuyFees :: "Lot list \<Rightarrow> real" where
  "matchedBuyFees matched =
     sum_list (map (\<lambda>(b, m). fee b * m / amount (volume b)) matched)"

definition signedProceeds :: "Trade \<times> Lot list \<Rightarrow> real" where
  "signedProceeds c =
     sellProceeds (fst c) - matchedBuyCost (snd c) - (fee (fst c) + matchedBuyFees (snd c))"

text \<open>
  Modelled from the spec: the sales within the window with their matched lots, and
  \<^verbatim>\<open>gridProfit.realizedProfit\<close>, the sum of their signed proceeds (section 4.1). The
  matching runs over the whole sequence: a purchase before the window is the matched
  cost of the sale within the window that closes it, and a purchase no sale has closed
  is not realized.
\<close>

definition cyclesWithin :: "Period \<Rightarrow> Trade list \<Rightarrow> (Trade \<times> Lot list) list" where
  "cyclesWithin timeframe trades =
     filter (\<lambda>c. inWindow timeframe (fst c)) (closedCycles [] trades)"

definition realizedProfitOf :: "Trade list \<Rightarrow> Period \<Rightarrow> real" where
  "realizedProfitOf trades timeframe =
     sum_list (map signedProceeds (cyclesWithin timeframe trades))"

text \<open>
  Modelled from the spec: the sign of a position's side and
  \<^verbatim>\<open>gridProfit.unrealizedPnl\<close>, the sum over the positions of
  \<^verbatim>\<open>(currentPrice - entryPrice) * size * sign(side)\<close> (section 4.1).
\<close>

definition sideSign :: "PositionSide \<Rightarrow> real" where
  "sideSign s = (case s of LONG \<Rightarrow> 1 | SHORT \<Rightarrow> - 1)"

definition unrealizedPnlOf :: "Position list \<Rightarrow> real" where
  "unrealizedPnlOf positions =
     sum_list (map (\<lambda>p. (currentPrice p - entryPrice p) * size' p * sideSign (side p))
       positions)"

text \<open>
  Modelled from the spec: the body of a \<^verbatim>\<open>PnLCalculator\<close>, of which the source has
  the type only (lines 157 to 163). Section 4.1: it fails with \<^verbatim>\<open>InvalidWindow\<close>
  when \<^verbatim>\<open>end < start\<close>, and with \<^verbatim>\<open>EmptyInput\<close> on no trades and no positions
  where the policy says so; otherwise \<^verbatim>\<open>netProfit\<close> is realized profit plus
  unrealized P\&L minus \<^verbatim>\<open>totalCosts.totalAmount\<close>, the cost snapshot is passed
  through, and \<^verbatim>\<open>finalPnl\<close> is \<^verbatim>\<open>netProfit\<close> adjusted by
  \<^verbatim>\<open>riskAdjustedReturn\<close>.
\<close>

definition pnlCalculator :: "PnLPolicy \<Rightarrow> PnLCalculator" where
  "pnlCalculator policy trades positions config costs timeframe =
     (if end timeframe < start timeframe then Inl InvalidWindow
      else if rejectEmptyInput policy \<and> trades = [] \<and> positions = [] then Inl EmptyInput
      else
        let realized = realizedProfitOf trades timeframe;
            unrealized = unrealizedPnlOf positions;
            net = realized + unrealized - totalAmount costs;
            adjusted = riskAdjustedReturnOf policy net
        in Inr \<lparr>
             gridProfit = \<lparr>
               realizedProfit = realized,
               unrealizedPnl = unrealized,
               totalTrades = totalTradesOf policy trades,
               successfulCycles = successfulCyclesOf policy trades,
               timestamp = dateOf policy timeframe \<rparr>,
             totalCosts = costs,
             netProfit = net,
             riskAdjustedReturn = adjusted,
             finalPnl = adjustedPnl policy net adjusted,
             calculationDate = dateOf policy timeframe \<rparr>)"

text \<open>The inputs of the specification's examples.\<close>

definition examplePolicy :: PnLPolicy where
  "examplePolicy = \<lparr>
     rejectEmptyInput = True,
     riskAdjustedReturnOf = (\<lambda>net. 0),
     adjustedPnl = (\<lambda>net adjusted. net),
     totalTradesOf = (\<lambda>trades. real (length trades)),
     successfulCyclesOf = (\<lambda>trades. 0),
     dateOf = end \<rparr>"

definition exampleBuy :: "string \<Rightarrow> Date \<Rightarrow> Trade" where
  "exampleBuy i ts = \<lparr>
     id' = i, type = BUY,
     price = \<lparr> value = 10, timestamp = ts \<rparr>,
     volume = \<lparr> amount = 100, currency = ''USD'' \<rparr>,
     fee = 0.1,
     timestamp = ts \<rparr>"

definition exampleSell :: "string \<Rightarrow> Date \<Rightarrow> Trade" where
  "exampleSell i ts = \<lparr>
     id' = i, type = SELL,
     price = \<lparr> value = 12, timestamp = ts \<rparr>,
     volume = \<lparr> amount = 100, currency = ''USD'' \<rparr>,
     fee = 0.1,
     timestamp = ts \<rparr>"

definition exampleConfig :: GridConfig where
  "exampleConfig = \<lparr>
     symbol = ''BTCUSDT'',
     priceRange = \<lparr> upper = 20, lower = 5 \<rparr>,
     gridLevels = 10,
     gridSpacing = 1.5,
     baseOrderSize = 100,
     maxPositions = 4 \<rparr>"

definition exampleCosts :: TotalCosts where
  "exampleCosts = \<lparr>
     trading = \<lparr> buyFees = 0.1, sellFees = 0.1, spreadCost = 0, slippageCost = 0,
                 fundingCost = 0 \<rparr>,
     infrastructure = \<lparr> vpsCost = 5, apiCost = 0, softwareLicenses = 0,
                        networkCosts = 0 \<rparr>,
     opportunity = \<lparr> riskFreeRate = 0, alternativeInvestmentReturn = 0, timeValue = 0 \<rparr>,
     risk = \<lparr> drawdownImpact = 0, volatilityPenalty = 0, correlationRisk = 0,
              liquidityRisk = 0 \<rparr>,
     hidden = \<lparr> rebalancingCost = 0, gapRisk = 0, liquidityCost = 0,
                taxImplications = 0 \<rparr>,
     totalAmount = 5.2 \<rparr>"

lemmas example_inputs =
  examplePolicy_def exampleBuy_def exampleSell_def exampleConfig_def exampleCosts_def

lemmas realized_defs =
  realizedProfitOf_def cyclesWithin_def signedProceeds_def sellProceeds_def
  matchedBuyCost_def matchedBuyFees_def openLot_def inWindow_def

lemmas pnl_defs =
  pnlCalculator_def realized_defs unrealizedPnlOf_def sideSign_def


lemma pnlCalculator_invalid_window:
  "end timeframe < start timeframe \<Longrightarrow>
     pnlCalculator policy trades positions config costs timeframe = Inl InvalidWindow"
  by (simp add: pnlCalculator_def)

text \<open>
  Claim C3. For every \<^verbatim>\<open>PnLCalculation\<close> a \<^verbatim>\<open>PnLCalculator\<close> produces,
  \<^verbatim>\<open>netProfit\<close> is \<^verbatim>\<open>gridProfit.realizedProfit\<close> plus
  \<^verbatim>\<open>gridProfit.unrealizedPnl\<close> minus \<^verbatim>\<open>totalCosts.totalAmount\<close>, read off the
  fields of the result. Numbers are reals here, so the equation is exact.
\<close>

theorem net_profit_of_result:
  assumes "pnlCalculator policy trades positions config costs timeframe = Inr out"
  shows "netProfit out =
           realizedProfit (gridProfit out) + GridProfit.unrealizedPnl (gridProfit out)
           - totalAmount (totalCosts out)"
proof -
  from assms have valid: "\<not> end timeframe < start timeframe"
    by (auto simp add: pnlCalculator_def split: if_splits)
  from assms have "\<not> (rejectEmptyInput policy \<and> trades = [] \<and> positions = [])"
    by (auto simp add: pnlCalculator_def split: if_splits)
  with assms valid show ?thesis
    by (auto simp add: pnlCalculator_def Let_def)
qed

theorem net_profit_of_result_witness:
  "pnlCalculator examplePolicy [exampleBuy ''t1'' 1000, exampleSell ''t2'' 2000] []
       exampleConfig exampleCosts \<lparr> start = 0, end = 3000 \<rparr>
     = Inr \<lparr>
         gridProfit = \<lparr> realizedProfit = 1998 / 10, unrealizedPnl = 0, totalTrades = 2,
                        successfulCycles = 0, timestamp = 3000 \<rparr>,
         totalCosts = exampleCosts,
         netProfit = 1946 / 10,
         riskAdjustedReturn = 0,
         finalPnl = 1946 / 10,
         calculationDate = 3000 \<rparr>
   \<and> (1946 / 10 :: real) = 1998 / 10 + 0 - totalAmount exampleCosts"
proof -
  let ?out = "\<lparr>
         gridProfit = \<lparr> realizedProfit = 1998 / 10, unrealizedPnl = 0, totalTrades = 2,
                        successfulCycles = 0, timestamp = 3000 \<rparr>,
         totalCosts = exampleCosts,
         netProfit = 1946 / 10,
         riskAdjustedReturn = 0,
         finalPnl = 1946 / 10,
         calculationDate = 3000 \<rparr>"
  have run: "pnlCalculator examplePolicy [exampleBuy ''t1'' 1000, exampleSell ''t2'' 2000] []
       exampleConfig exampleCosts \<lparr> start = 0, end = 3000 \<rparr> = Inr ?out"
    by (simp add: pnl_defs example_inputs Let_def)
  from net_profit_of_result [OF run] run show ?thesis
    by simp
qed

subsubsection \<open>Realized profit\<close>

text \<open>The sales with matched lots are the sales of the sequence, in order.\<close>

lemma map_fst_closedCycles:
  "map fst (closedCycles lots trades) = filter (\<lambda>t. type t = SELL) trades"
proof (induction trades arbitrary: lots)
  case Nil
  show ?case by simp
next
  case (Cons t ts)
  then show ?case by (cases "type t") simp_all
qed





text \<open>A purchase that no sale has closed is not realized.\<close>

lemma realizedProfitOf_no_sale:
  assumes "\<forall>t \<in> set trades. type t = BUY"
  shows "realizedProfitOf trades timeframe = 0"
proof -
  from assms have "filter (\<lambda>t. type t = SELL) trades = []"
    by (induction trades) simp_all
  then have "map fst (closedCycles [] trades) = []"
    by (simp only: map_fst_closedCycles)
  then show ?thesis
    by (simp add: realizedProfitOf_def cyclesWithin_def)
qed

text \<open>
  The quantities of the matching: with every open lot positive, a sale of quantity
  \<open>q\<close> is matched with \<open>q\<close> if that much is open and with all that is open otherwise,
  and what it is matched with and what it leaves open make up what was open.
\<close>

definition positiveLots :: "Lot list \<Rightarrow> bool" where
  "positiveLots lots \<longleftrightarrow> (\<forall>l \<in> set lots. 0 < snd l)"

lemma positiveLots_total:
  "positiveLots lots \<Longrightarrow> 0 \<le> sum_list (map snd lots)"
  by (induction lots) (auto simp add: positiveLots_def)

lemma matchLots_quantity:
  "positiveLots lots \<Longrightarrow>
     sum_list (map snd (matchLots q lots)) = min (max q 0) (sum_list (map snd lots))"
proof (induction q lots rule: matchLots.induct)
  case (1 q)
  show ?case by simp
next
  case (2 q b r lots)
  then have pos: "0 < r" "positiveLots lots"
    by (simp_all add: positiveLots_def)
  have nonneg: "0 \<le> sum_list (map snd lots)"
    using pos(2) by (rule positiveLots_total)
  show ?case
  proof (cases "q \<le> 0")
    case True
    with pos nonneg show ?thesis by simp
  next
    case False
    show ?thesis
    proof (cases "q < r")
      case True
      with False pos nonneg show ?thesis by simp
    next
      case ge: False
      with False 2 pos have "sum_list (map snd (matchLots (q - r) lots))
          = min (max (q - r) 0) (sum_list (map snd lots))"
        by simp
      with False ge pos nonneg show ?thesis
        by (simp add: min_def max_def)
    qed
  qed
qed

lemma remainingLots_positive:
  "positiveLots lots \<Longrightarrow> positiveLots (remainingLots q lots)"
  by (induction q lots rule: remainingLots.induct) (auto simp add: positiveLots_def)

lemma remainingLots_quantity:
  "sum_list (map snd (remainingLots q lots)) + sum_list (map snd (matchLots q lots))
     = sum_list (map snd lots)"
  by (induction q lots rule: remainingLots.induct) simp_all

lemma openLot_positive:
  "positiveLots lots \<Longrightarrow> positiveLots (openLot b lots)"
  by (auto simp add: positiveLots_def openLot_def)

text \<open>No sale is matched with more than its amount.\<close>

lemma closedCycles_matched_quantity:
  assumes "positiveLots lots" and "c \<in> set (closedCycles lots trades)"
  shows "sum_list (map snd (snd c)) \<le> max (amount (volume (fst c))) 0"
  using assms
proof (induction trades arbitrary: lots)
  case Nil
  then show ?case by simp
next
  case (Cons t ts)
  show ?case
  proof (cases "type t")
    case BUY
    with Cons.prems have "c \<in> set (closedCycles (openLot t lots) ts)"
      by simp
    with Cons.IH [OF openLot_positive [OF Cons.prems(1)]] show ?thesis
      by blast
  next
    case SELL
    with Cons.prems consider
      (head) "c = (t, matchLots (amount (volume t)) lots)"
      | (tail) "c \<in> set (closedCycles (remainingLots (amount (volume t)) lots) ts)"
      by auto
    then show ?thesis
    proof cases
      case head
      with matchLots_quantity [OF Cons.prems(1), of "amount (volume t)"] show ?thesis
        by simp
    next
      case tail
      with Cons.IH [OF remainingLots_positive [OF Cons.prems(1)]] show ?thesis
        by blast
    qed
  qed
qed

text \<open>
  What a sale is matched with: purchases only, each with a positive quantity that is no
  more than the purchase's amount, so that the share of a purchase's fee is a share.
\<close>

definition soundLots :: "Lot list \<Rightarrow> bool" where
  "soundLots lots \<longleftrightarrow>
     (\<forall>l \<in> set lots. type (fst l) = BUY \<and> 0 < snd l \<and> snd l \<le> amount (volume (fst l)))"

lemma soundLots_positive:
  "soundLots lots \<Longrightarrow> positiveLots lots"
  by (simp add: soundLots_def positiveLots_def)

lemma openLot_sound:
  "type b = BUY \<Longrightarrow> soundLots lots \<Longrightarrow> soundLots (openLot b lots)"
  by (auto simp add: soundLots_def openLot_def)

lemma matchLots_sound:
  "soundLots lots \<Longrightarrow> soundLots (matchLots q lots)"
  by (induction q lots rule: matchLots.induct) (auto simp add: soundLots_def)

lemma remainingLots_sound:
  "soundLots lots \<Longrightarrow> soundLots (remainingLots q lots)"
  by (induction q lots rule: remainingLots.induct) (auto simp add: soundLots_def)

lemma closedCycles_sound:
  assumes "soundLots lots" and "c \<in> set (closedCycles lots trades)"
  shows "soundLots (snd c)"
  using assms
proof (induction trades arbitrary: lots)
  case Nil
  then show ?case by simp
next
  case (Cons t ts)
  show ?case
  proof (cases "type t")
    case BUY
    with Cons.prems have "c \<in> set (closedCycles (openLot t lots) ts)"
      by simp
    with Cons.IH [OF openLot_sound [OF BUY Cons.prems(1)]] show ?thesis
      by blast
  next
    case SELL
    with Cons.prems consider
      (head) "c = (t, matchLots (amount (volume t)) lots)"
      | (tail) "c \<in> set (closedCycles (remainingLots (amount (volume t)) lots) ts)"
      by auto
    then show ?thesis
    proof cases
      case head
      with matchLots_sound [OF Cons.prems(1)] show ?thesis
        by simp
    next
      case tail
      with Cons.IH [OF remainingLots_sound [OF Cons.prems(1)]] show ?thesis
        by blast
    qed
  qed
qed

lemma cyclesWithin_sound:
  "c \<in> set (cyclesWithin timeframe trades) \<Longrightarrow> soundLots (snd c)"
  using closedCycles_sound [of "[]" c trades]
  by (simp add: cyclesWithin_def soundLots_def)


text \<open>
  Two histories beside the specification's example: the purchase alone realizes nothing,
  and the purchase made before the window is the matched cost of the sale within it.
\<close>

lemma realizedProfitOf_lone_purchase:
  "realizedProfitOf [exampleBuy i1 1000] \<lparr> start = 0, end = 3000 \<rparr> = 0"
  by (simp add: realized_defs exampleBuy_def)

lemma realizedProfitOf_purchase_before_window:
  "realizedProfitOf [exampleBuy i1 1000, exampleSell i2 2000] \<lparr> start = 1500, end = 3000 \<rparr>
     = 1998 / 10"
  by (simp add: realized_defs exampleBuy_def exampleSell_def)



subsection \<open>Risk calculator\<close>

text \<open>
  Modelled from the spec: the formulas of section 4.2 that the specification names
  without fixing (the drawdown over the return series, the value at risk at a fixed
  confidence level, the ratio of mean win to mean loss, the recovery time), taken as
  parameters of the returns and the risk-free rate.
\<close>

record RiskFormulas =
  maximumDrawdownOf :: "real list \<Rightarrow> real \<Rightarrow> real"
  valueAtRiskOf :: "real list \<Rightarrow> real \<Rightarrow> real"
  averageWinLossRatioOf :: "real list \<Rightarrow> real \<Rightarrow> real"
  recoveryTimeOf :: "real list \<Rightarrow> real \<Rightarrow> real"

text \<open>
  Modelled from the spec: \<^verbatim>\<open>winRate\<close>, the fraction of positive-return periods
  (section 4.2). The calculator applies it to a non-empty series only.
\<close>

definition winRateOf :: "real list \<Rightarrow> real" where
  "winRateOf returns = real (length (filter (\<lambda>r. 0 < r) returns)) / real (length returns)"

text \<open>
  Modelled from the spec: the body of a \<^verbatim>\<open>RiskCalculator\<close>, of which the source has
  the type only (lines 165 to 168; its parameter \<^verbatim>\<open>riskFreeRate\<close> is \<open>rate\<close>
  here, the name being a field of \<^verbatim>\<open>OpportunityCosts\<close>). Section 4.2: the metrics are undefined on an empty
  returns sequence, where the calculator fails with \<^verbatim>\<open>InsufficientData\<close>.
\<close>

definition riskCalculator :: "RiskFormulas \<Rightarrow> RiskCalculator" where
  "riskCalculator formulas returns rate =
     (if returns = [] then Inl InsufficientData
      else Inr \<lparr>
        maximumDrawdown = maximumDrawdownOf formulas returns rate,
        valueAtRisk = valueAtRiskOf formulas returns rate,
        winRate = winRateOf returns,
        averageWinLossRatio = averageWinLossRatioOf formulas returns rate,
        recoveryTime = recoveryTimeOf formulas returns rate \<rparr>)"

lemma riskCalculator_returns:
  "returns \<noteq> [] \<Longrightarrow> \<exists>metrics. riskCalculator formulas returns rate = Inr metrics"
  by (simp add: riskCalculator_def)

lemma riskCalculator_winRate_bounds:
  assumes "riskCalculator formulas returns rate = Inr metrics"
  shows "0 \<le> winRate metrics \<and> winRate metrics \<le> 1"
proof -
  from assms have nonempty: "returns \<noteq> []" and rate: "winRate metrics = winRateOf returns"
    by (auto simp add: riskCalculator_def split: if_splits)
  have "length (filter (\<lambda>r. 0 < r) returns) \<le> length returns"
    by (rule length_filter_le)
  moreover from nonempty have "0 < length returns"
    by simp
  ultimately show ?thesis
    by (simp add: rate winRateOf_def)
qed

text \<open>
  Claim C5. For every risk-free rate, a \<^verbatim>\<open>RiskCalculator\<close> applied to an empty
  returns sequence fails with the typed error \<^verbatim>\<open>InsufficientData\<close>; it returns no
  \<^verbatim>\<open>RiskMetrics\<close> value.
\<close>

theorem risk_calculator_empty_returns:
  "riskCalculator formulas [] rate = Inl InsufficientData
   \<and> (\<forall>metrics. riskCalculator formulas [] rate \<noteq> Inr metrics)"
  by (simp add: riskCalculator_def)

section \<open>The grid trading strategy\<close>

text \<open>
  The data fields of the interface \<^verbatim>\<open>GridTradingStrategy\<close> (lines 178 to 181). Its
  methods take the strategy as an argument; \<^verbatim>\<open>updateGrid\<close>, which returns
  \<^verbatim>\<open>void\<close>, returns the strategy it leaves behind.
\<close>

record GridTradingStrategy =
  config :: GridConfig
  currentPositions :: "Position list"
  tradeHistory :: "Trade list"
  performance :: PerformanceReport

text \<open>
  \<^verbatim>\<open>Partial<GridConfig>\<close>, the parameter type of \<^verbatim>\<open>updateGrid\<close>: every field of
  \<^verbatim>\<open>GridConfig\<close> is optional. The utility type is shallow, so a price range that
  is present is a whole one.
\<close>

record PartialGridConfig =
  symbol :: "string option"
  priceRange :: "PriceRange option"
  gridLevels :: "real option"
  gridSpacing :: "real option"
  baseOrderSize :: "real option"
  maxPositions :: "real option"

text \<open>
  Modelled from the spec: the body of \<^verbatim>\<open>updateGrid\<close>, of which the source has the
  signature only (line 184). Section 4.4: it mutates the configuration in place,
  merging only the provided fields and leaving the others unchanged.
\<close>

definition updateGrid :: "PartialGridConfig \<Rightarrow> GridTradingStrategy \<Rightarrow> GridTradingStrategy" where
  "updateGrid newConfig s = s\<lparr>config := \<lparr>
     GridConfig.symbol =
       (case PartialGridConfig.symbol newConfig of
          None \<Rightarrow> GridConfig.symbol (config s) | Some v \<Rightarrow> v),
     GridConfig.priceRange =
       (case PartialGridConfig.priceRange newConfig of
          None \<Rightarrow> GridConfig.priceRange (config s) | Some v \<Rightarrow> v),
     GridConfig.gridLevels =
       (case PartialGridConfig.gridLevels newConfig of
          None \<Rightarrow> GridConfig.gridLevels (config s) | Some v \<Rightarrow> v),
     GridConfig.gridSpacing =
       (case PartialGridConfig.gridSpacing newConfig of
          None \<Rightarrow> GridConfig.gridSpacing (config s) | Some v \<Rightarrow> v),
     GridConfig.baseOrderSize =
       (case PartialGridConfig.baseOrderSize newConfig of
          None \<Rightarrow> GridConfig.baseOrderSize (config s) | Some v \<Rightarrow> v),
     GridConfig.maxPositions =
       (case PartialGridConfig.maxPositions newConfig of
          None \<Rightarrow> GridConfig.maxPositions (config s) | Some v \<Rightarrow> v) \<rparr>\<rparr>"

text \<open>A strategy holding the example trades, and a partial configuration.\<close>

definition exampleReport :: "Period \<Rightarrow> PerformanceReport" where
  "exampleReport p = \<lparr>
     pnl = \<lparr>
       gridProfit = \<lparr> realizedProfit = 0, unrealizedPnl = 0, totalTrades = 0,
                      successfulCycles = 0, timestamp = start p \<rparr>,
       totalCosts = exampleCosts,
       netProfit = 0, riskAdjustedReturn = 0, finalPnl = 0,
       calculationDate = start p \<rparr>,
     returnMetrics = \<lparr> sharpeRatio = 0, sortinoRatio = 0, calmarRatio = 0,
                       annualReturn = 0, volatility = 0 \<rparr>,
     riskMetrics = \<lparr> maximumDrawdown = 0, valueAtRisk = 0, winRate = 0,
                     averageWinLossRatio = 0, recoveryTime = 0 \<rparr>,
     efficiencyMetrics = \<lparr> profitFactor = 0, recoveryFactor = 0, tradesPerDay = 0,
                           averageProfitPerTrade = 0, gridEfficiency = 0 \<rparr>,
     gridMetrics = \<lparr> gridEfficiency = 0, capitalUtilization = 0, cycleCompletionRate = 0,
                     averageGridSpacing = 0, maxCapitalAtRisk = 0 \<rparr>,
     period = p \<rparr>"

definition exampleStrategy :: "Period \<Rightarrow> GridTradingStrategy" where
  "exampleStrategy p = \<lparr>
     config = exampleConfig,
     currentPositions = [],
     tradeHistory = [exampleBuy ''t1'' 1000, exampleSell ''t2'' 2000],
     performance = exampleReport p \<rparr>"

definition examplePartial :: PartialGridConfig where
  "examplePartial = \<lparr>
     symbol = None,
     priceRange = Some \<lparr> upper = 30, lower = 10 \<rparr>,
     gridLevels = Some 20,
     gridSpacing = None,
     baseOrderSize = None,
     maxPositions = None \<rparr>"

text \<open>
  Claim C7. For every strategy and every partial configuration, \<^verbatim>\<open>updateGrid\<close>
  changes only the configuration fields present in the partial value: a field that is
  absent keeps its value, a field that is present takes the value given, and the
  positions, the trade history and the performance report of the strategy stay as they
  were.
\<close>

theorem update_grid_merges_present_fields:
  "(PartialGridConfig.symbol p = None \<longrightarrow>
      GridConfig.symbol (config (updateGrid p s)) = GridConfig.symbol (config s))
   \<and> (PartialGridConfig.priceRange p = None \<longrightarrow>
      GridConfig.priceRange (config (updateGrid p s)) = GridConfig.priceRange (config s))
   \<and> (PartialGridConfig.gridLevels p = None \<longrightarrow>
      GridConfig.gridLevels (config (updateGrid p s)) = GridConfig.gridLevels (config s))
   \<and> (PartialGridConfig.gridSpacing p = None \<longrightarrow>
      GridConfig.gridSpacing (config (updateGrid p s)) = GridConfig.gridSpacing (config s))
   \<and> (PartialGridConfig.baseOrderSize p = None \<longrightarrow>
      GridConfig.baseOrderSize (config (updateGrid p s))
        = GridConfig.baseOrderSize (config s))
   \<and> (PartialGridConfig.maxPositions p = None \<longrightarrow>
      GridConfig.maxPositions (config (updateGrid p s)) = GridConfig.maxPositions (config s))
   \<and> (\<forall>v. PartialGridConfig.symbol p = Some v \<longrightarrow>
      GridConfig.symbol (config (updateGrid p s)) = v)
   \<and> (\<forall>v. PartialGridConfig.priceRange p = Some v \<longrightarrow>
      GridConfig.priceRange (config (updateGrid p s)) = v)
   \<and> (\<forall>v. PartialGridConfig.gridLevels p = Some v \<longrightarrow>
      GridConfig.gridLevels (config (updateGrid p s)) = v)
   \<and> (\<forall>v. PartialGridConfig.gridSpacing p = Some v \<longrightarrow>
      GridConfig.gridSpacing (config (updateGrid p s)) = v)
   \<and> (\<forall>v. PartialGridConfig.baseOrderSize p = Some v \<longrightarrow>
      GridConfig.baseOrderSize (config (updateGrid p s)) = v)
   \<and> (\<forall>v. PartialGridConfig.maxPositions p = Some v \<longrightarrow>
      GridConfig.maxPositions (config (updateGrid p s)) = v)
   \<and> currentPositions (updateGrid p s) = currentPositions s
   \<and> tradeHistory (updateGrid p s) = tradeHistory s
   \<and> performance (updateGrid p s) = performance s"
  by (simp add: updateGrid_def)

theorem update_grid_merges_present_fields_witness:
  "config (updateGrid examplePartial (exampleStrategy \<lparr> start = 0, end = 3000 \<rparr>)) = \<lparr>
     GridConfig.symbol = ''BTCUSDT'',
     GridConfig.priceRange = \<lparr> upper = 30, lower = 10 \<rparr>,
     GridConfig.gridLevels = 20,
     GridConfig.gridSpacing = 1.5,
     GridConfig.baseOrderSize = 100,
     GridConfig.maxPositions = 4 \<rparr>
   \<and> tradeHistory (updateGrid examplePartial (exampleStrategy \<lparr> start = 0, end = 3000 \<rparr>))
       = [exampleBuy ''t1'' 1000, exampleSell ''t2'' 2000]"
proof -
  let ?s = "exampleStrategy \<lparr> start = 0, end = 3000 \<rparr>"
  note merged = update_grid_merges_present_fields [of examplePartial ?s]
  have absent:
    "PartialGridConfig.symbol examplePartial = None"
    "PartialGridConfig.gridSpacing examplePartial = None"
    "PartialGridConfig.baseOrderSize examplePartial = None"
    "PartialGridConfig.maxPositions examplePartial = None"
    by (simp_all add: examplePartial_def)
  have present:
    "PartialGridConfig.priceRange examplePartial = Some \<lparr> upper = 30, lower = 10 \<rparr>"
    "PartialGridConfig.gridLevels examplePartial = Some 20"
    by (simp_all add: examplePartial_def)
  have before: "config ?s = exampleConfig"
    "tradeHistory ?s = [exampleBuy ''t1'' 1000, exampleSell ''t2'' 2000]"
    by (simp_all add: exampleStrategy_def)
  from merged absent present before
  have fields:
    "GridConfig.symbol (config (updateGrid examplePartial ?s)) = ''BTCUSDT''"
    "GridConfig.priceRange (config (updateGrid examplePartial ?s)) = \<lparr> upper = 30, lower = 10 \<rparr>"
    "GridConfig.gridLevels (config (updateGrid examplePartial ?s)) = 20"
    "GridConfig.gridSpacing (config (updateGrid examplePartial ?s)) = 1.5"
    "GridConfig.baseOrderSize (config (updateGrid examplePartial ?s)) = 100"
    "GridConfig.maxPositions (config (updateGrid examplePartial ?s)) = 4"
    "tradeHistory (updateGrid examplePartial ?s)
       = [exampleBuy ''t1'' 1000, exampleSell ''t2'' 2000]"
    by (simp_all add: exampleConfig_def)
  have "config (updateGrid examplePartial ?s) = \<lparr>
     GridConfig.symbol = GridConfig.symbol (config (updateGrid examplePartial ?s)),
     GridConfig.priceRange = GridConfig.priceRange (config (updateGrid examplePartial ?s)),
     GridConfig.gridLevels = GridConfig.gridLevels (config (updateGrid examplePartial ?s)),
     GridConfig.gridSpacing = GridConfig.gridSpacing (config (updateGrid examplePartial ?s)),
     GridConfig.baseOrderSize = GridConfig.baseOrderSize (config (updateGrid examplePartial ?s)),
     GridConfig.maxPositions = GridConfig.maxPositions (config (updateGrid examplePartial ?s)) \<rparr>"
    by simp
  with fields show ?thesis
    by simp
qed

end
